theory Spec2Isabelle
  imports Complex_Main "HOL-Library.Sublist" "HOL-Library.Word"
begin

section \<open>QANet (models.py): the wiring of the model\<close>

text \<open>
  \<^verbatim>\<open>models.py\<close> defines one class, \<^verbatim>\<open>QANet\<close>, with a constructor that builds nine
  sub-modules and a \<^verbatim>\<open>forward\<close> that threads two tensors through them, and a
  \<^verbatim>\<open>__main__\<close> block that runs the model once. The sub-module classes come from
  \<^verbatim>\<open>from layers import *\<close>; that module is not among the sources, so whatever a
  sub-module does when it is constructed or called is a parameter of the model below.
\<close>

subsection \<open>Effects: state and exceptions\<close>

text \<open>
  A Python call may raise and may change state (parameters, buffers, the random number
  generator). A computation takes the state and returns either the exception (\<open>Inl\<close>) or
  the value (\<open>Inr\<close>), together with the state reached: what was changed before an
  exception was raised stays changed.
\<close>

type_synonym ('s, 'e, 'a) eff = "'s \<Rightarrow> ('e + 'a) \<times> 's"

definition ret :: "'a \<Rightarrow> ('s, 'e, 'a) eff" where
  "ret v = (\<lambda>s. (Inr v, s))"

definition bind_eff :: "('s, 'e, 'a) eff \<Rightarrow> ('a \<Rightarrow> ('s, 'e, 'b) eff) \<Rightarrow> ('s, 'e, 'b) eff" where
  "bind_eff m f = (\<lambda>s. case m s of
                        (Inl e, s') \<Rightarrow> (Inl e, s')
                      | (Inr v, s') \<Rightarrow> f v s')"

subsection \<open>Sub-modules\<close>

text \<open>
  What \<^verbatim>\<open>__init__\<close> knows of a sub-module is its class and the arguments it passes to the
  class. Python integers are unbounded (\<open>int\<close>); the word-vector table is a tensor.
  The argument order is the one of the constructor calls in \<^verbatim>\<open>__init__\<close>.
\<close>

datatype 't layer_spec =
    InputEmbeddingLayer 't
  | EmbeddingEncodeLayer int int int int
  | CQAttentionLayer int
  | ConvolutionBlock int int int int
  | ModelEncoderLayer int int int
  | OutputLayer int bool

text \<open>
  A sub-module is an object: two constructor calls with equal arguments give two
  objects. Each object carries the identity it was given when it was created.
\<close>

record 't layer =
  ident :: nat
  descr :: "'t layer_spec"

text \<open>
  \<open>new ctor sp\<close> is the Python expression \<^verbatim>\<open>Cls(args)\<close>: it takes a fresh identity
  for the object and runs the class's constructor body \<open>ctor\<close> (code of \<^verbatim>\<open>layers\<close>),
  which works on the library's state and may raise.
\<close>

definition new ::
  "('t layer \<Rightarrow> ('x, 'e, unit) eff) \<Rightarrow> 't layer_spec \<Rightarrow> (nat \<times> 'x, 'e, 't layer) eff" where
  "new ctor sp = (\<lambda>(n, x).
     let l = \<lparr>ident = n, descr = sp\<rparr> in
     case ctor l x of
       (Inl e, x') \<Rightarrow> (Inl e, (Suc n, x'))
     | (Inr u, x') \<Rightarrow> (Inr l, (Suc n, x')))"

subsection \<open>The class QANet\<close>

record 't QANet =
  c_emb :: "'t layer"
  q_emb :: "'t layer"
  c_enc :: "'t layer"
  q_enc :: "'t layer"
  cqa :: "'t layer"
  cq_conv :: "'t layer"
  model_enc :: "'t layer"
  start_out :: "'t layer"
  end_out :: "'t layer"

text \<open>
  \<^verbatim>\<open>QANet.__init__\<close>. The nine assignments \<^verbatim>\<open>self.name = Cls(...)\<close> in the order of the
  source; \<^verbatim>\<open>super(QANet, self).__init__()\<close> only prepares the empty object. An exception
  of a constructor leaves \<^verbatim>\<open>__init__\<close> at once.
\<close>

definition QANet_init ::
  "('t layer \<Rightarrow> ('x, 'e, unit) eff) \<Rightarrow> 't \<Rightarrow> int \<Rightarrow> int \<Rightarrow> int \<Rightarrow> int \<Rightarrow> int \<Rightarrow> bool
     \<Rightarrow> (nat \<times> 'x, 'e, 't QANet) eff" where
  "QANet_init ctor word_vectors d_model c_len q_len hidden_state heads log_softmax =
     bind_eff (new ctor (InputEmbeddingLayer word_vectors)) (\<lambda>c_emb'.
     bind_eff (new ctor (InputEmbeddingLayer word_vectors)) (\<lambda>q_emb'.
     bind_eff (new ctor (EmbeddingEncodeLayer d_model c_len hidden_state heads)) (\<lambda>c_enc'.
     bind_eff (new ctor (EmbeddingEncodeLayer d_model q_len hidden_state heads)) (\<lambda>q_enc'.
     bind_eff (new ctor (CQAttentionLayer hidden_state)) (\<lambda>cqa'.
     bind_eff (new ctor (ConvolutionBlock (hidden_state * 4) hidden_state c_len 5)) (\<lambda>cq_conv'.
     bind_eff (new ctor (ModelEncoderLayer hidden_state c_len heads)) (\<lambda>model_enc'.
     bind_eff (new ctor (OutputLayer hidden_state log_softmax)) (\<lambda>start_out'.
     bind_eff (new ctor (OutputLayer hidden_state log_softmax)) (\<lambda>end_out'.
     ret \<lparr>c_emb = c_emb', q_emb = q_emb', c_enc = c_enc', q_enc = q_enc', cqa = cqa',
          cq_conv = cq_conv', model_enc = model_enc', start_out = start_out',
          end_out = end_out'\<rparr>)))))))))"

text \<open>The defaults of the keyword parameters of \<^verbatim>\<open>__init__\<close>.\<close>

definition QANet_default ::
  "('t layer \<Rightarrow> ('x, 'e, unit) eff) \<Rightarrow> 't \<Rightarrow> (nat \<times> 'x, 'e, 't QANet) eff" where
  "QANet_default ctor word_vectors = QANet_init ctor word_vectors 300 200 100 128 8 False"

text \<open>
  \<^verbatim>\<open>QANet.forward\<close>. \<open>call l xs\<close> is the Python call \<^verbatim>\<open>l(*xs)\<close> of a sub-module, code of
  \<^verbatim>\<open>layers\<close>. The source rebinds \<^verbatim>\<open>c_emb_enc\<close>, \<^verbatim>\<open>q_emb_enc\<close> and \<^verbatim>\<open>qc_att\<close>; the inner
  binding shadows the outer one here as there.
\<close>

definition forward ::
  "('t layer \<Rightarrow> 't list \<Rightarrow> ('x, 'e, 't) eff) \<Rightarrow> 't QANet \<Rightarrow> 't \<Rightarrow> 't \<Rightarrow> ('x, 'e, 't \<times> 't) eff" where
  "forward call self context question =
     bind_eff (call (c_emb self) [context]) (\<lambda>c_emb_enc.
     bind_eff (call (q_emb self) [question]) (\<lambda>q_emb_enc.
     bind_eff (call (c_enc self) [c_emb_enc]) (\<lambda>c_emb_enc.
     bind_eff (call (q_enc self) [q_emb_enc]) (\<lambda>q_emb_enc.
     bind_eff (call (cqa self) [c_emb_enc, q_emb_enc]) (\<lambda>qc_att.
     bind_eff (call (cq_conv self) [qc_att]) (\<lambda>qc_att.
     bind_eff (call (model_enc self) [qc_att]) (\<lambda>mod_enc_1.
     bind_eff (call (model_enc self) [mod_enc_1]) (\<lambda>mod_enc_2.
     bind_eff (call (model_enc self) [mod_enc_2]) (\<lambda>mod_enc_3.
     bind_eff (call (start_out self) [mod_enc_1, mod_enc_2]) (\<lambda>start_out'.
     bind_eff (call (end_out self) [mod_enc_1, mod_enc_3]) (\<lambda>end_out'.
     ret (start_out', end_out'))))))))))))"

subsection \<open>Observing the calls\<close>

text \<open>
  An event is one call of a sub-module: the object called, the arguments, and what the
  call gave (\<open>Inl\<close>: it raised). \<open>traced call\<close> behaves as \<open>call\<close> and appends the
  event to a log kept beside the library's state.
\<close>

type_synonym ('t, 'e) event = "'t layer \<times> 't list \<times> ('e + 't)"

definition traced ::
  "('t layer \<Rightarrow> 't list \<Rightarrow> ('x, 'e, 't) eff)
     \<Rightarrow> 't layer \<Rightarrow> 't list \<Rightarrow> (('t, 'e) event list \<times> 'x, 'e, 't) eff" where
  "traced call l xs = (\<lambda>(evs, x).
     case call l xs x of (r, x') \<Rightarrow> (r, (evs @ [(l, xs, r)], x')))"

definition traced_ctor ::
  "('t layer \<Rightarrow> ('x, 'e, unit) eff)
     \<Rightarrow> 't layer \<Rightarrow> (('t layer \<times> ('e + unit)) list \<times> 'x, 'e, unit) eff" where
  "traced_ctor ctor l = (\<lambda>(evs, x).
     case ctor l x of (r, x') \<Rightarrow> (r, (evs @ [(l, r)], x')))"

text \<open>The events of one run of \<^verbatim>\<open>forward\<close>, and of one run of \<^verbatim>\<open>__init__\<close>.\<close>

definition forward_events ::
  "('t layer \<Rightarrow> 't list \<Rightarrow> ('x, 'e, 't) eff) \<Rightarrow> 't QANet \<Rightarrow> 't \<Rightarrow> 't \<Rightarrow> 'x
     \<Rightarrow> ('t, 'e) event list" where
  "forward_events call self context question x =
     fst (snd (forward (traced call) self context question ([], x)))"

definition init_events ::
  "('t layer \<Rightarrow> ('x, 'e, unit) eff) \<Rightarrow> 't \<Rightarrow> int \<Rightarrow> int \<Rightarrow> int \<Rightarrow> int \<Rightarrow> int \<Rightarrow> bool
     \<Rightarrow> nat \<times> 'x \<Rightarrow> ('t layer \<times> ('e + unit)) list" where
  "init_events ctor word_vectors d_model c_len q_len hidden_state heads log_softmax w =
     fst (snd (snd (QANet_init (traced_ctor ctor) word_vectors d_model c_len q_len
                      hidden_state heads log_softmax (fst w, ([], snd w)))))"

text \<open>
  A computation \<open>m'\<close> over a state with a log in it is the traced form of \<open>m\<close> when,
  the log projected away by \<open>p\<close>, both give the same result and the same state.
\<close>

definition erases :: "('s1 \<Rightarrow> 's) \<Rightarrow> ('s1, 'e, 'a) eff \<Rightarrow> ('s, 'e, 'a) eff \<Rightarrow> bool" where
  "erases p m' m \<longleftrightarrow>
     (\<forall>s. fst (m' s) = fst (m (p s)) \<and> p (snd (m' s)) = snd (m (p s)))"

subsection \<open>What the description says of the runs\<close>

text \<open>The order of sub-module applications the description gives for \<^verbatim>\<open>forward\<close>.\<close>

definition pipeline :: "'t QANet \<Rightarrow> 't layer list" where
  "pipeline self =
     [c_emb self, q_emb self, c_enc self, q_enc self, cqa self, cq_conv self,
      model_enc self, model_enc self, model_enc self, start_out self, end_out self]"

text \<open>The sub-modules of a model: the nine attributes \<^verbatim>\<open>__init__\<close> sets.\<close>

definition modules :: "'t QANet \<Rightarrow> 't layer list" where
  "modules self =
     [c_emb self, q_emb self, c_enc self, q_enc self, cqa self, cq_conv self,
      model_enc self, start_out self, end_out self]"

text \<open>
  Exceptions pass through untouched: a call was made; of the results of the calls made,
  in order, none but the last is an exception; and the whole run raises exactly when
  the last call raised, with that very exception.
\<close>

fun propagates :: "'e + 'a \<Rightarrow> ('e + 'b) list \<Rightarrow> bool" where
  "propagates r [] = False"
| "propagates r [r'] = (case r' of Inl e \<Rightarrow> r = Inl e | Inr v \<Rightarrow> \<not> isl r)"
| "propagates r (r' # rs) = (\<not> isl r' \<and> propagates r rs)"

text \<open>
  Every argument of every call is a value at hand: one of the given tensors or the
  result of an earlier call.
\<close>

fun sourced :: "'t list \<Rightarrow> ('t, 'e) event list \<Rightarrow> bool" where
  "sourced avail [] = True"
| "sourced avail ((l, xs, r) # evs) =
     (set xs \<subseteq> set avail \<and>
      sourced (case r of Inl e \<Rightarrow> avail | Inr y \<Rightarrow> y # avail) evs)"

text \<open>The integers a constructor was given.\<close>

fun int_args :: "'t layer_spec \<Rightarrow> int list" where
  "int_args (InputEmbeddingLayer wv) = []"
| "int_args (EmbeddingEncodeLayer a b c d) = [a, b, c, d]"
| "int_args (CQAttentionLayer a) = [a]"
| "int_args (ConvolutionBlock a b c d) = [a, b, c, d]"
| "int_args (ModelEncoderLayer a b c) = [a, b, c]"
| "int_args (OutputLayer a ls) = [a]"

text \<open>
  Every integer given to the constructor of a sub-module of the model is one of the
  \<open>known\<close> integers.
\<close>

definition passes_on :: "int list \<Rightarrow> 't QANet \<Rightarrow> bool" where
  "passes_on known self =
     list_all (\<lambda>l. list_all (\<lambda>k. k \<in> set known) (int_args (descr l))) (modules self)"

subsection \<open>Shapes\<close>

text \<open>
  Modelled from the spec: the module \<^verbatim>\<open>layers\<close> (the classes \<^verbatim>\<open>InputEmbeddingLayer\<close>,
  \<^verbatim>\<open>EmbeddingEncodeLayer\<close>, \<^verbatim>\<open>CQAttentionLayer\<close>, \<^verbatim>\<open>ConvolutionBlock\<close>,
  \<^verbatim>\<open>ModelEncoderLayer\<close> and \<^verbatim>\<open>OutputLayer\<close>) is missing from the sources; the
  description only says that these layers are defined elsewhere. What is known of the
  shapes they take and give is the annotation that each line of \<^verbatim>\<open>forward\<close> carries,
  read against the constructor arguments of \<^verbatim>\<open>__init__\<close>:
  \<^item> input embedding: \<open>(batch, len)\<close> to \<open>(batch, d_model, len)\<close>, with \<open>d_model\<close> the
    width of the word-vector table;
  \<^item> embedding encoder for \<open>(d_model, len, hidden)\<close>: \<open>(batch, d_model, len)\<close> to
    \<open>(batch, hidden, len)\<close>;
  \<^item> context-query attention for \<open>hidden\<close>: \<open>(batch, hidden, c_len)\<close> and
    \<open>(batch, hidden, q_len)\<close> to \<open>(batch, hidden * 4, c_len)\<close>;
  \<^item> convolution block for \<open>(in, out, len)\<close>: \<open>(batch, in, len)\<close> to \<open>(batch, out, len)\<close>;
  \<^item> model encoder for \<open>(hidden, len)\<close>: \<open>(batch, hidden, len)\<close> to itself;
  \<^item> output layer for \<open>hidden\<close>: two of \<open>(batch, hidden, len)\<close> to \<open>(batch, len)\<close>.
  \<open>layer_shape shp sp ss\<close> is the shape a sub-module built as \<open>sp\<close> gives on arguments
  of shapes \<open>ss\<close>, and \<open>None\<close> where the annotations say nothing.
\<close>

fun layer_shape :: "('t \<Rightarrow> int list) \<Rightarrow> 't layer_spec \<Rightarrow> int list list \<Rightarrow> int list option" where
  "layer_shape shp (InputEmbeddingLayer wv) ss =
     (case shp wv of
        [vocab, d] \<Rightarrow> (case ss of [[b, n]] \<Rightarrow> Some [b, d, n] | _ \<Rightarrow> None)
      | _ \<Rightarrow> None)"
| "layer_shape shp (EmbeddingEncodeLayer d len h heads) ss =
     (case ss of
        [[b, d', len']] \<Rightarrow> if d' = d \<and> len' = len then Some [b, h, len] else None
      | _ \<Rightarrow> None)"
| "layer_shape shp (CQAttentionLayer h) ss =
     (case ss of
        [[b, h1, n], [b', h2, m]] \<Rightarrow>
          if b' = b \<and> h1 = h \<and> h2 = h then Some [b, h * 4, n] else None
      | _ \<Rightarrow> None)"
| "layer_shape shp (ConvolutionBlock cin cout len k) ss =
     (case ss of
        [[b, c, len']] \<Rightarrow> if c = cin \<and> len' = len then Some [b, cout, len] else None
      | _ \<Rightarrow> None)"
| "layer_shape shp (ModelEncoderLayer h len heads) ss =
     (case ss of
        [[b, h', len']] \<Rightarrow> if h' = h \<and> len' = len then Some [b, h, len] else None
      | _ \<Rightarrow> None)"
| "layer_shape shp (OutputLayer h ls) ss =
     (case ss of
        [[b, h1, n], [b', h2, n']] \<Rightarrow>
          if b' = b \<and> h1 = h \<and> h2 = h \<and> n' = n then Some [b, n] else None
      | _ \<Rightarrow> None)"


subsection \<open>A small layer library to run the model on\<close>

text \<open>
  Tensors reduced to their shapes. A call checks the shapes of its arguments against
  the annotations and raises on a mismatch; it leaves the library's state alone.
  \<open>counting_call\<close> does the same and counts the calls in the state.
\<close>

definition shape_call :: "int list layer \<Rightarrow> int list list \<Rightarrow> ('x, string, int list) eff" where
  "shape_call l xs = (\<lambda>x.
     case layer_shape id (descr l) xs of
       None \<Rightarrow> (Inl ''shape mismatch'', x)
     | Some s \<Rightarrow> (Inr s, x))"

definition counting_call :: "int list layer \<Rightarrow> int list list \<Rightarrow> (nat, string, int list) eff" where
  "counting_call l xs = (\<lambda>n. (fst (shape_call l xs n), Suc n))"

text \<open>
  Two constructor bodies: one that accepts everything, and one that refuses an
  embedding encoder whose hidden size is not a multiple of its number of heads.
\<close>

definition plain_ctor :: "'t layer \<Rightarrow> ('x, string, unit) eff" where
  "plain_ctor l = ret ()"

definition checked_ctor :: "'t layer \<Rightarrow> ('x, string, unit) eff" where
  "checked_ctor l = (\<lambda>x.
     case descr l of
       EmbeddingEncodeLayer d len h heads \<Rightarrow>
         if heads \<noteq> 0 \<and> h mod heads = 0 then (Inr (), x) else (Inl ''heads'', x)
     | _ \<Rightarrow> (Inr (), x))"

text \<open>The model \<^verbatim>\<open>QANet(word_vectors)\<close> over a table of 1000 vectors of width 300.\<close>

definition demo_model :: "int list QANet" where
  "demo_model =
     \<lparr>c_emb = \<lparr>ident = 0, descr = InputEmbeddingLayer [1000, 300]\<rparr>,
      q_emb = \<lparr>ident = 1, descr = InputEmbeddingLayer [1000, 300]\<rparr>,
      c_enc = \<lparr>ident = 2, descr = EmbeddingEncodeLayer 300 200 128 8\<rparr>,
      q_enc = \<lparr>ident = 3, descr = EmbeddingEncodeLayer 300 100 128 8\<rparr>,
      cqa = \<lparr>ident = 4, descr = CQAttentionLayer 128\<rparr>,
      cq_conv = \<lparr>ident = 5, descr = ConvolutionBlock 512 128 200 5\<rparr>,
      model_enc = \<lparr>ident = 6, descr = ModelEncoderLayer 128 200 8\<rparr>,
      start_out = \<lparr>ident = 7, descr = OutputLayer 128 False\<rparr>,
      end_out = \<lparr>ident = 8, descr = OutputLayer 128 False\<rparr>\<rparr>"

subsection \<open>The \<^verbatim>\<open>__main__\<close> block: the tensors given to the model\<close>

text \<open>
  \<^verbatim>\<open>torch.rand(shape)\<close> fills a tensor with numbers drawn uniformly from the interval
  \<open>[0, 1)\<close>. The draw is a parameter: \<open>uniform g\<close> is the next number and the next state
  of the generator. The numbers are single-precision floats; each is a real number, and
  nothing below depends on which reals are floats.
\<close>

fun draws :: "('g \<Rightarrow> real \<times> 'g) \<Rightarrow> nat \<Rightarrow> 'g \<Rightarrow> real list \<times> 'g" where
  "draws uniform 0 g = ([], g)"
| "draws uniform (Suc n) g =
     (case uniform g of (r, g1) \<Rightarrow>
      case draws uniform n g1 of (rs, g2) \<Rightarrow> (r # rs, g2))"

fun rand_rows :: "('g \<Rightarrow> real \<times> 'g) \<Rightarrow> nat \<Rightarrow> nat \<Rightarrow> 'g \<Rightarrow> real list list \<times> 'g" where
  "rand_rows uniform 0 cols g = ([], g)"
| "rand_rows uniform (Suc rows) cols g =
     (case draws uniform cols g of (row, g1) \<Rightarrow>
      case rand_rows uniform rows cols g1 of (rest, g2) \<Rightarrow> (row # rest, g2))"

definition rand :: "('g \<Rightarrow> real \<times> 'g) \<Rightarrow> nat \<times> nat \<Rightarrow> 'g \<Rightarrow> real list list \<times> 'g" where
  "rand uniform shape g = rand_rows uniform (fst shape) (snd shape) g"

text \<open>
  \<^verbatim>\<open>.to(torch.int64)\<close> on a float: the fraction is dropped (rounding towards zero). An
  integer that fits in 64 bits signed is stored as it is; for any other the conversion
  gives the least 64-bit integer, \<open>- 2 ^ 63\<close>.
\<close>

definition to_int64 :: "real \<Rightarrow> 64 word" where
  "to_int64 r =
     (let t = (if 0 \<le> r then \<lfloor>r\<rfloor> else \<lceil>r\<rceil>)
      in if - (2 ^ 63) \<le> t \<and> t < 2 ^ 63 then word_of_int t else word_of_int (- (2 ^ 63)))"

text \<open>
  \<^verbatim>\<open>ctx = torch.rand((2, 200)).to(torch.int64)\<close> and
  \<^verbatim>\<open>q = torch.rand((2, 100)).to(torch.int64)\<close>: the two tensors \<^verbatim>\<open>__main__\<close> passes to
  the model, from the state \<open>g\<close> of the generator when the program starts.
\<close>

definition main_inputs ::
  "('g \<Rightarrow> real \<times> 'g) \<Rightarrow> 'g \<Rightarrow> (64 word list list \<times> 64 word list list) \<times> 'g" where
  "main_inputs uniform g =
     (case rand uniform (2, 200) g of (t1, g1) \<Rightarrow>
      let ctx = map (map to_int64) t1 in
      case rand uniform (2, 100) g1 of (t2, g2) \<Rightarrow>
      let q = map (map to_int64) t2 in
      ((ctx, q), g2))"

text \<open>A generator to run \<^verbatim>\<open>__main__\<close> on: sixteenths, stepped by a linear congruence.\<close>

definition lcg :: "nat \<Rightarrow> real \<times> nat" where
  "lcg g = (real (g mod 16) / 16, (5 * g + 3) mod 16)"

section \<open>Basic facts\<close>

lemma traced_step:
  "traced call l xs (evs, x) = (r, (evs', x')) \<longleftrightarrow>
     call l xs x = (r, x') \<and> evs' = evs @ [(l, xs, r)]"
  by (auto simp: traced_def split: prod.splits)

subsection \<open>Tracing changes neither result nor state\<close>

lemma erases_ret: "erases p (ret v) (ret v)"
  by (simp add: erases_def ret_def)

lemma erases_traced: "erases snd (traced call l xs) (call l xs)"
  by (simp add: erases_def traced_def split: prod.splits)

lemma erases_new: "erases (apsnd snd) (new (traced_ctor ctor) sp) (new ctor sp)"
  by (simp add: erases_def new_def traced_ctor_def Let_def split: prod.splits sum.splits)

lemma erases_bind:
  assumes "erases p m' m" and "\<And>v. erases p (f' v) (f v)"
  shows "erases p (bind_eff m' f') (bind_eff m f)"
  unfolding erases_def
proof (intro allI)
  fix s
  obtain r s' where m': "m' s = (r, s')"
    by (metis prod.exhaust)
  with assms(1) have m: "m (p s) = (r, p s')"
    unfolding erases_def by (metis fst_conv snd_conv prod.collapse)
  show "fst (bind_eff m' f' s) = fst (bind_eff m f (p s)) \<and>
        p (snd (bind_eff m' f' s)) = snd (bind_eff m f (p s))"
  proof (cases r)
    case (Inl e)
    with m m' show ?thesis by (simp add: bind_eff_def)
  next
    case (Inr v)
    with m m' assms(2)[of v] show ?thesis by (simp add: bind_eff_def erases_def)
  qed
qed

lemma erases_forward:
  "erases snd (forward (traced call) self context question)
     (forward call self context question)"
  unfolding forward_def
  by (intro erases_bind erases_traced erases_ret)

lemma erases_init:
  "erases (apsnd snd)
     (QANet_init (traced_ctor ctor) word_vectors d_model c_len q_len hidden_state heads log_softmax)
     (QANet_init ctor word_vectors d_model c_len q_len hidden_state heads log_softmax)"
  unfolding QANet_init_def
  by (intro erases_bind erases_new erases_ret)

lemma forward_traced_run:
  assumes "forward call self context question x = (r, x')"
  shows "forward (traced call) self context question ([], x) =
           (r, (forward_events call self context question x, x'))"
  using erases_forward[of call self "context" question] assms
  unfolding erases_def forward_events_def
  by (metis fst_conv snd_conv prod.collapse)

lemma forward_traced_result:
  "fst (forward (traced call) self context question ([], x)) =
   fst (forward call self context question x)"
  using erases_forward[of call self "context" question]
  unfolding erases_def by (metis snd_conv)

lemma init_traced_result:
  "fst (QANet_init (traced_ctor ctor) word_vectors d_model c_len q_len hidden_state heads
          log_softmax (n, ([], x))) =
   fst (QANet_init ctor word_vectors d_model c_len q_len hidden_state heads log_softmax (n, x))"
  using erases_init[of ctor word_vectors d_model c_len q_len hidden_state heads log_softmax]
  unfolding erases_def by (metis apsnd_conv snd_conv)

subsection \<open>The runs of \<^verbatim>\<open>forward\<close>\<close>

lemma forward_success_chain:
  "forward call self context question x0 = (Inr (a, b), x') \<longleftrightarrow>
   (\<exists>c1 q1 c2 q2 att cv m1 m2 m3 x1 x2 x3 x4 x5 x6 x7 x8 x9 x10.
      call (c_emb self) [context] x0 = (Inr c1, x1) \<and>
      call (q_emb self) [question] x1 = (Inr q1, x2) \<and>
      call (c_enc self) [c1] x2 = (Inr c2, x3) \<and>
      call (q_enc self) [q1] x3 = (Inr q2, x4) \<and>
      call (cqa self) [c2, q2] x4 = (Inr att, x5) \<and>
      call (cq_conv self) [att] x5 = (Inr cv, x6) \<and>
      call (model_enc self) [cv] x6 = (Inr m1, x7) \<and>
      call (model_enc self) [m1] x7 = (Inr m2, x8) \<and>
      call (model_enc self) [m2] x8 = (Inr m3, x9) \<and>
      call (start_out self) [m1, m2] x9 = (Inr a, x10) \<and>
      call (end_out self) [m1, m3] x10 = (Inr b, x'))"
  unfolding forward_def bind_eff_def ret_def
  by (auto split: prod.splits sum.splits)

lemma forward_events_success:
  assumes "forward call self context question x = (Inr (a, b), x')"
  shows "\<exists>c1 q1 c2 q2 att cv m1 m2 m3.
      forward_events call self context question x =
        [(c_emb self, [context], Inr c1), (q_emb self, [question], Inr q1),
         (c_enc self, [c1], Inr c2), (q_enc self, [q1], Inr q2),
         (cqa self, [c2, q2], Inr att), (cq_conv self, [att], Inr cv),
         (model_enc self, [cv], Inr m1), (model_enc self, [m1], Inr m2),
         (model_enc self, [m2], Inr m3),
         (start_out self, [m1, m2], Inr a), (end_out self, [m1, m3], Inr b)]"
  using forward_traced_run[OF assms] unfolding forward_success_chain
  by (auto simp: traced_step)

lemma pipeline_prefix:
  "prefix (map fst (forward_events call self context question x)) (pipeline self)"
  unfolding forward_events_def forward_def bind_eff_def traced_def ret_def pipeline_def
  by (simp split: prod.splits sum.splits)

lemma forward_events_propagate:
  "propagates (fst (forward (traced call) self context question ([], x)))
     (map (\<lambda>ev. snd (snd ev)) (forward_events call self context question x))"
  unfolding forward_events_def forward_def bind_eff_def traced_def ret_def
  by (simp split: prod.splits sum.splits)

lemma forward_events_sourced:
  "sourced [context, question] (forward_events call self context question x)"
  unfolding forward_events_def forward_def bind_eff_def traced_def ret_def
  by (simp split: prod.splits sum.splits)

lemma forward_events_modules:
  "set (map fst (forward_events call self context question x)) \<subseteq> set (modules self)"
  unfolding forward_events_def forward_def bind_eff_def traced_def ret_def modules_def
  by (simp split: prod.splits sum.splits)

lemma propagates_nonempty: "propagates r rs \<Longrightarrow> rs \<noteq> []"
  by (cases rs) simp_all

lemma propagates_Inl:
  "propagates (Inl e) rs \<Longrightarrow> last rs = Inl e"
  by (induction "Inl e :: 'a + 'b" rs rule: propagates.induct)
     (auto split: sum.splits)

lemma forward_propagates:
  "propagates (fst (forward call self context question x))
     (map (\<lambda>ev. snd (snd ev)) (forward_events call self context question x))"
  using forward_events_propagate[of call self "context" question x]
  by (simp add: forward_traced_result)

lemma forward_events_raise:
  assumes "fst (forward call self context question x) = Inl e"
  shows "\<exists>l xs. last (forward_events call self context question x) = (l, xs, Inl e)"
proof -
  let ?evs = "forward_events call self context question x"
  have p: "propagates (Inl e :: 'a + 'b \<times> 'b) (map (\<lambda>ev. snd (snd ev)) ?evs)"
    using forward_propagates[of call self "context" question x] assms by simp
  from propagates_nonempty[OF p] have ne: "?evs \<noteq> []" by simp
  from propagates_Inl[OF p] have "last (map (\<lambda>ev. snd (snd ev)) ?evs) = Inl e" .
  with ne have "snd (snd (last ?evs)) = Inl e"
    by (simp add: last_map)
  then show ?thesis by (metis prod.collapse)
qed

text \<open>What every call of a sub-module keeps, \<^verbatim>\<open>forward\<close> keeps.\<close>

lemma bind_eff_preserves:
  assumes "\<And>s. I s \<Longrightarrow> I (snd (m s))" and "\<And>v s. I s \<Longrightarrow> I (snd (f v s))" and "I s"
  shows "I (snd (bind_eff m f s))"
proof (cases "m s")
  case (Pair r s')
  with assms(1)[OF assms(3)] have "I s'" by simp
  with Pair assms(2) show ?thesis
    by (cases r) (simp_all add: bind_eff_def)
qed

lemma forward_preserves:
  assumes step: "\<And>l xs y. I y \<Longrightarrow> I (snd (call l xs y))" and "I x"
  shows "I (snd (forward call self context question x))"
  unfolding forward_def
  by (intro bind_eff_preserves[where I = I] step) (simp_all add: ret_def assms)

subsection \<open>The runs of \<^verbatim>\<open>__init__\<close>\<close>

lemma QANet_init_success:
  assumes "QANet_init ctor word_vectors d_model c_len q_len hidden_state heads log_softmax (n, x)
             = (Inr self, w')"
  shows "self =
     \<lparr>c_emb = \<lparr>ident = n, descr = InputEmbeddingLayer word_vectors\<rparr>,
      q_emb = \<lparr>ident = n + 1, descr = InputEmbeddingLayer word_vectors\<rparr>,
      c_enc = \<lparr>ident = n + 2, descr = EmbeddingEncodeLayer d_model c_len hidden_state heads\<rparr>,
      q_enc = \<lparr>ident = n + 3, descr = EmbeddingEncodeLayer d_model q_len hidden_state heads\<rparr>,
      cqa = \<lparr>ident = n + 4, descr = CQAttentionLayer hidden_state\<rparr>,
      cq_conv = \<lparr>ident = n + 5, descr = ConvolutionBlock (hidden_state * 4) hidden_state c_len 5\<rparr>,
      model_enc = \<lparr>ident = n + 6, descr = ModelEncoderLayer hidden_state c_len heads\<rparr>,
      start_out = \<lparr>ident = n + 7, descr = OutputLayer hidden_state log_softmax\<rparr>,
      end_out = \<lparr>ident = n + 8, descr = OutputLayer hidden_state log_softmax\<rparr>\<rparr>"
  using assms unfolding QANet_init_def bind_eff_def new_def ret_def Let_def
  by (auto split: prod.splits sum.splits)

lemma init_events_propagate:
  "propagates (fst (QANet_init (traced_ctor ctor) word_vectors d_model c_len q_len hidden_state
                      heads log_softmax (n, ([], x))))
     (map snd (init_events ctor word_vectors d_model c_len q_len hidden_state heads log_softmax (n, x)))"
  unfolding init_events_def QANet_init_def bind_eff_def new_def traced_ctor_def ret_def Let_def
  by (simp split: prod.splits sum.splits)

lemma init_propagates:
  "propagates
     (fst (QANet_init ctor word_vectors d_model c_len q_len hidden_state heads log_softmax (n, x)))
     (map snd (init_events ctor word_vectors d_model c_len q_len hidden_state heads log_softmax
                 (n, x)))"
  using init_events_propagate[of ctor word_vectors d_model c_len q_len hidden_state heads
          log_softmax n x]
  by (simp add: init_traced_result)

subsection \<open>Runs on the small library\<close>

lemma demo_run:
  "forward shape_call demo_model [2, 200] [2, 100] x = (Inr ([2, 200], [2, 200]), x)"
  by (simp add: forward_def bind_eff_def shape_call_def demo_model_def ret_def)

lemma demo_events:
  "forward_events shape_call demo_model [2, 200] [2, 100] x =
     [(c_emb demo_model, [[2, 200]], Inr [2, 300, 200]),
      (q_emb demo_model, [[2, 100]], Inr [2, 300, 100]),
      (c_enc demo_model, [[2, 300, 200]], Inr [2, 128, 200]),
      (q_enc demo_model, [[2, 300, 100]], Inr [2, 128, 100]),
      (cqa demo_model, [[2, 128, 200], [2, 128, 100]], Inr [2, 512, 200]),
      (cq_conv demo_model, [[2, 512, 200]], Inr [2, 128, 200]),
      (model_enc demo_model, [[2, 128, 200]], Inr [2, 128, 200]),
      (model_enc demo_model, [[2, 128, 200]], Inr [2, 128, 200]),
      (model_enc demo_model, [[2, 128, 200]], Inr [2, 128, 200]),
      (start_out demo_model, [[2, 128, 200], [2, 128, 200]], Inr [2, 200]),
      (end_out demo_model, [[2, 128, 200], [2, 128, 200]], Inr [2, 200])]"
  by (simp add: forward_events_def forward_def bind_eff_def traced_def shape_call_def
        demo_model_def ret_def)

lemma demo_short_run:
  "forward shape_call demo_model [2, 150] [2, 100] x = (Inl ''shape mismatch'', x)"
  by (simp add: forward_def bind_eff_def shape_call_def demo_model_def ret_def)

lemma demo_short_events:
  "forward_events shape_call demo_model [2, 150] [2, 100] x =
     [(c_emb demo_model, [[2, 150]], Inr [2, 300, 150]),
      (q_emb demo_model, [[2, 100]], Inr [2, 300, 100]),
      (c_enc demo_model, [[2, 300, 150]], Inl ''shape mismatch'')]"
  by (simp add: forward_events_def forward_def bind_eff_def traced_def shape_call_def
        demo_model_def ret_def)

lemma demo_init:
  "QANet_default plain_ctor [1000, 300] (0, x) = (Inr demo_model, (9, x))"
  by (simp add: QANet_default_def QANet_init_def bind_eff_def new_def plain_ctor_def
        demo_model_def ret_def)

lemma demo_init_refused:
  "QANet_init checked_ctor [1000, 300 :: int] 300 200 100 128 5 False (0, x) = (Inl ''heads'', (3, x))"
  by (simp add: QANet_init_def bind_eff_def new_def checked_ctor_def ret_def)

lemma demo_init_refused_events:
  "init_events checked_ctor [1000, 300 :: int] 300 200 100 128 5 False (0, x) =
     [(\<lparr>ident = 0, descr = InputEmbeddingLayer [1000, 300]\<rparr>, Inr ()),
      (\<lparr>ident = 1, descr = InputEmbeddingLayer [1000, 300]\<rparr>, Inr ()),
      (\<lparr>ident = 2, descr = EmbeddingEncodeLayer 300 200 128 5\<rparr>, Inl ''heads'')]"
  by (simp add: init_events_def QANet_init_def bind_eff_def new_def traced_ctor_def
        checked_ctor_def ret_def Let_def)

lemma QANet_init_descr:
  assumes "QANet_init ctor word_vectors d_model c_len q_len hidden_state heads log_softmax w
             = (Inr self, w')"
  shows "descr (c_emb self) = InputEmbeddingLayer word_vectors"
    and "descr (q_emb self) = InputEmbeddingLayer word_vectors"
    and "descr (c_enc self) = EmbeddingEncodeLayer d_model c_len hidden_state heads"
    and "descr (q_enc self) = EmbeddingEncodeLayer d_model q_len hidden_state heads"
    and "descr (cqa self) = CQAttentionLayer hidden_state"
    and "descr (cq_conv self) = ConvolutionBlock (hidden_state * 4) hidden_state c_len 5"
    and "descr (model_enc self) = ModelEncoderLayer hidden_state c_len heads"
    and "descr (start_out self) = OutputLayer hidden_state log_softmax"
    and "descr (end_out self) = OutputLayer hidden_state log_softmax"
proof -
  obtain n x0 where w: "w = (n, x0)" by (cases w)
  note self = QANet_init_success[OF assms[unfolded w]]
  show "descr (c_emb self) = InputEmbeddingLayer word_vectors"
    and "descr (q_emb self) = InputEmbeddingLayer word_vectors"
    and "descr (c_enc self) = EmbeddingEncodeLayer d_model c_len hidden_state heads"
    and "descr (q_enc self) = EmbeddingEncodeLayer d_model q_len hidden_state heads"
    and "descr (cqa self) = CQAttentionLayer hidden_state"
    and "descr (cq_conv self) = ConvolutionBlock (hidden_state * 4) hidden_state c_len 5"
    and "descr (model_enc self) = ModelEncoderLayer hidden_state c_len heads"
    and "descr (start_out self) = OutputLayer hidden_state log_softmax"
    and "descr (end_out self) = OutputLayer hidden_state log_softmax"
    by (simp_all add: self)
qed

lemma QANet_init_distinct:
  assumes "QANet_init ctor word_vectors d_model c_len q_len hidden_state heads log_softmax w
             = (Inr self, w')"
  shows "map ident (modules self) = map (\<lambda>k. fst w + k) [0, 1, 2, 3, 4, 5, 6, 7, 8]"
proof -
  obtain n x0 where w: "w = (n, x0)" by (cases w)
  note self = QANet_init_success[OF assms[unfolded w]]
  show ?thesis by (simp add: modules_def w self)
qed

subsection \<open>Shapes\<close>












subsection \<open>The tensors of \<^verbatim>\<open>__main__\<close>\<close>

lemma to_int64_unit_interval: "0 \<le> r \<Longrightarrow> r < 1 \<Longrightarrow> to_int64 r = 0"
proof -
  assume "0 \<le> r" and "r < 1"
  then have "\<lfloor>r\<rfloor> = 0" by (simp add: floor_eq_iff)
  with \<open>0 \<le> r\<close> show "to_int64 r = 0" by (simp add: to_int64_def Let_def)
qed

lemma draws_to_int64:
  assumes "\<forall>g. 0 \<le> fst (uniform g) \<and> fst (uniform g) < 1"
  shows "map to_int64 (fst (draws uniform n g)) = replicate n 0"
proof (induction n arbitrary: g)
  case 0
  show ?case by simp
next
  case (Suc n)
  obtain r g1 where u: "uniform g = (r, g1)" by (cases "uniform g")
  with assms[rule_format, of g] have z: "to_int64 r = 0"
    by (simp add: to_int64_unit_interval)
  obtain rs g2 where d: "draws uniform n g1 = (rs, g2)" by (cases "draws uniform n g1")
  with Suc[of g1] have "map to_int64 rs = replicate n 0" by simp
  with u d z show ?case by simp
qed

lemma rand_rows_to_int64:
  assumes "\<forall>g. 0 \<le> fst (uniform g) \<and> fst (uniform g) < 1"
  shows "map (map to_int64) (fst (rand_rows uniform rows cols g)) = replicate rows (replicate cols 0)"
proof (induction rows arbitrary: g)
  case 0
  show ?case by simp
next
  case (Suc rows)
  obtain row g1 where d: "draws uniform cols g = (row, g1)" by (cases "draws uniform cols g")
  with draws_to_int64[OF assms, of cols g] have z: "map to_int64 row = replicate cols 0" by simp
  obtain rest g2 where r: "rand_rows uniform rows cols g1 = (rest, g2)"
    by (cases "rand_rows uniform rows cols g1")
  with Suc[of g1] have "map (map to_int64) rest = replicate rows (replicate cols 0)" by simp
  with d r z show ?case by simp
qed

lemma main_inputs_zero:
  assumes "\<forall>g. 0 \<le> fst (uniform g) \<and> fst (uniform g) < 1"
  shows "fst (main_inputs uniform g) =
           (replicate 2 (replicate 200 0), replicate 2 (replicate 100 0))"
proof -
  obtain t1 g1 where 1: "rand uniform (2, 200) g = (t1, g1)" by (cases "rand uniform (2, 200) g")
  obtain t2 g2 where 2: "rand uniform (2, 100) g1 = (t2, g2)" by (cases "rand uniform (2, 100) g1")
  from rand_rows_to_int64[OF assms, of 2 200 g] 1
  have z1: "map (map to_int64) t1 = replicate 2 (replicate 200 0)" by (simp add: rand_def)
  from rand_rows_to_int64[OF assms, of 2 100 g1] 2
  have z2: "map (map to_int64) t2 = replicate 2 (replicate 100 0)" by (simp add: rand_def)
  show ?thesis by (simp add: main_inputs_def 1 2 z1 z2 Let_def)
qed

lemma rand_first:
  "0 < rows \<Longrightarrow> 0 < cols \<Longrightarrow> hd (hd (fst (rand uniform (rows, cols) g))) = fst (uniform g)"
  by (cases rows; cases cols) (simp_all add: rand_def split: prod.splits)

lemma lcg_unit_interval: "\<forall>g. 0 \<le> fst (lcg g) \<and> fst (lcg g) < 1"
proof
  fix g :: nat
  have "g mod 16 < 16" by simp
  then have "real (g mod 16) < 16" by (metis of_nat_less_iff of_nat_numeral)
  then show "0 \<le> fst (lcg g) \<and> fst (lcg g) < 1" by (simp add: lcg_def)
qed

section \<open>The claims\<close>

text \<open>
  Claim C1. For every pair of input tensors and whatever the sub-modules do, the
  sub-modules \<^verbatim>\<open>forward\<close> calls, in the order of the calls, are an initial segment of the
  fixed order: the two input embeddings, the two embedding encoders, the context-query
  attention, the convolution block, the model encoder three times, the two output
  layers. When \<^verbatim>\<open>forward\<close> returns, the calls are all eleven, the attention is applied
  to the two encodings and the convolution block to the result of the attention.
\<close>

theorem forward_order:
  "prefix (map fst (forward_events call self context question x)) (pipeline self) \<and>
   (\<forall>a b x'. forward call self context question x = (Inr (a, b), x') \<longrightarrow>
      (\<exists>c1 q1 c2 q2 att cv m1 m2 m3.
         forward_events call self context question x =
           [(c_emb self, [context], Inr c1), (q_emb self, [question], Inr q1),
            (c_enc self, [c1], Inr c2), (q_enc self, [q1], Inr q2),
            (cqa self, [c2, q2], Inr att), (cq_conv self, [att], Inr cv),
            (model_enc self, [cv], Inr m1), (model_enc self, [m1], Inr m2),
            (model_enc self, [m2], Inr m3),
            (start_out self, [m1, m2], Inr a), (end_out self, [m1, m3], Inr b)]))"
proof (intro conjI allI impI)
  show "prefix (map fst (forward_events call self context question x)) (pipeline self)"
    by (rule pipeline_prefix)
next
  fix a b x'
  assume "forward call self context question x = (Inr (a, b), x')"
  then show "\<exists>c1 q1 c2 q2 att cv m1 m2 m3.
         forward_events call self context question x =
           [(c_emb self, [context], Inr c1), (q_emb self, [question], Inr q1),
            (c_enc self, [c1], Inr c2), (q_enc self, [q1], Inr q2),
            (cqa self, [c2, q2], Inr att), (cq_conv self, [att], Inr cv),
            (model_enc self, [cv], Inr m1), (model_enc self, [m1], Inr m2),
            (model_enc self, [m2], Inr m3),
            (start_out self, [m1, m2], Inr a), (end_out self, [m1, m3], Inr b)]"
    by (rule forward_events_success)
qed

theorem forward_order_witness:
  "forward shape_call demo_model [2, 200] [2, 100] () = (Inr ([2, 200], [2, 200]), ()) \<and>
   map fst (forward_events shape_call demo_model [2, 200] [2, 100] ()) = pipeline demo_model \<and>
   prefix (map fst (forward_events shape_call demo_model [2, 150] [2, 100] ()))
     (pipeline demo_model) \<and>
   length (forward_events shape_call demo_model [2, 150] [2, 100] ()) = 3"
  using forward_order[of shape_call demo_model "[2, 200]" "[2, 100]" "()"]
    forward_order[of shape_call demo_model "[2, 150]" "[2, 100]" "()"]
  by (simp add: demo_run demo_events demo_short_events pipeline_def)

text \<open>
  Claim C2. Unless a sub-module raises, \<^verbatim>\<open>forward\<close> returns a pair of tensors: the
  first is what the call of \<^verbatim>\<open>start_out\<close> returned, the second what the call of
  \<^verbatim>\<open>end_out\<close> returned, and these are the last two of its eleven calls. When
  \<^verbatim>\<open>forward\<close> does not return, the last call made raised the exception it raises.
\<close>

theorem forward_returns_pair:
  "(\<exists>e l xs. fst (forward call self context question x) = Inl e \<and>
       last (forward_events call self context question x) = (l, xs, Inl e)) \<or>
   (\<exists>a b m1 m2 m3. fst (forward call self context question x) = Inr (a, b) \<and>
       length (forward_events call self context question x) = 11 \<and>
       drop 9 (forward_events call self context question x) =
         [(start_out self, [m1, m2], Inr a), (end_out self, [m1, m3], Inr b)])"
proof (cases "fst (forward call self context question x)")
  case (Inl e)
  from forward_events_raise[OF Inl] obtain l xs where
    "last (forward_events call self context question x) = (l, xs, Inl e)" by blast
  with Inl show ?thesis by blast
next
  case (Inr p)
  obtain a b where p: "p = (a, b)" by (cases p)
  obtain x' where run: "forward call self context question x = (Inr (a, b), x')"
    using Inr p by (cases "forward call self context question x") simp
  from forward_events_success[OF run] obtain c1 q1 c2 q2 att cv m1 m2 m3 where
    "forward_events call self context question x =
        [(c_emb self, [context], Inr c1), (q_emb self, [question], Inr q1),
         (c_enc self, [c1], Inr c2), (q_enc self, [q1], Inr q2),
         (cqa self, [c2, q2], Inr att), (cq_conv self, [att], Inr cv),
         (model_enc self, [cv], Inr m1), (model_enc self, [m1], Inr m2),
         (model_enc self, [m2], Inr m3),
         (start_out self, [m1, m2], Inr a), (end_out self, [m1, m3], Inr b)]"
    by blast
  then have "length (forward_events call self context question x) = 11 \<and>
       drop 9 (forward_events call self context question x) =
         [(start_out self, [m1, m2], Inr a), (end_out self, [m1, m3], Inr b)]"
    by simp
  with Inr p show ?thesis by blast
qed

theorem forward_returns_pair_witness:
  "fst (forward shape_call demo_model [2, 200] [2, 100] ()) = Inr ([2, 200], [2, 200]) \<and>
   drop 9 (forward_events shape_call demo_model [2, 200] [2, 100] ()) =
     [(start_out demo_model, [[2, 128, 200], [2, 128, 200]], Inr [2, 200]),
      (end_out demo_model, [[2, 128, 200], [2, 128, 200]], Inr [2, 200])]"
  using forward_returns_pair[of shape_call demo_model "[2, 200]" "[2, 100]" "()"]
  by (simp add: demo_run demo_events)



text \<open>
  Claim C4. The tensors \<^verbatim>\<open>__main__\<close> gives to the model do not vary from run to run.
  \<^verbatim>\<open>torch.rand\<close> draws from \<open>[0, 1)\<close> and the conversion to 64-bit integers drops the
  fraction, so every entry is 0 whatever was drawn: from two states of the generator
  whose draws differ (first numbers \<open>1/16\<close> and \<open>1/8\<close>), the context tensor is the
  \<open>2 \<times> 200\<close> zero tensor and the question tensor the \<open>2 \<times> 100\<close> zero tensor both
  times.
\<close>

theorem main_inputs_constant:
  "hd (hd (fst (rand lcg (2, 200) 1))) = 1 / 16 \<and>
   hd (hd (fst (rand lcg (2, 200) 2))) = 1 / 8 \<and>
   fst (main_inputs lcg 1) = (replicate 2 (replicate 200 0), replicate 2 (replicate 100 0)) \<and>
   fst (main_inputs lcg 2) = (replicate 2 (replicate 200 0), replicate 2 (replicate 100 0))"
proof -
  have "hd (hd (fst (rand lcg (2, 200) 1))) = 1 / 16"
    and "hd (hd (fst (rand lcg (2, 200) 2))) = 1 / 8"
    by (simp_all add: rand_first lcg_def)
  with main_inputs_zero[OF lcg_unit_interval] show ?thesis by simp
qed

text \<open>
  Claim C5, as stated, fails in one clause: the file does contain arithmetic. With the
  default arguments the convolution block is built with 512 input channels, which is
  none of the arguments of \<^verbatim>\<open>__init__\<close> (300, 200, 100, 128, 8) and none of the integer
  literals of the file (5, 4, 2 and the defaults): it is the product \<^verbatim>\<open>hidden_state*4\<close>.
\<close>

theorem no_arithmetic_counterexample:
  "QANet_default plain_ctor [1000, 300] (0, ()) = (Inr demo_model, (9, ())) \<and>
   int_args (descr (cq_conv demo_model)) = [512, 128, 200, 5] \<and>
   \<not> passes_on [300, 200, 100, 128, 8, 5, 4, 2] demo_model"
  by (simp add: demo_init) (simp add: passes_on_def modules_def demo_model_def)

text \<open>
  Claim C5, amended. \<^verbatim>\<open>forward\<close> computes no tensor of its own: it calls only
  sub-modules of the model, every argument of every call is \<^verbatim>\<open>context\<close>, \<^verbatim>\<open>question\<close>
  or the result of an earlier call, and the two tensors it returns are results of the
  calls of \<^verbatim>\<open>start_out\<close> and \<^verbatim>\<open>end_out\<close>. The only arithmetic of the file is the
  product \<^verbatim>\<open>hidden_state*4\<close> in \<^verbatim>\<open>__init__\<close>, the first argument of the convolution
  block: every other integer a constructor is given is an argument of \<^verbatim>\<open>__init__\<close>, or
  the literal 5 of the convolution block.
\<close>

theorem forward_only_applies_modules:
  assumes init: "QANet_init ctor word_vectors d_model c_len q_len hidden_state heads log_softmax w
                   = (Inr self, w')"
  shows "set (map fst (forward_events call self context question x)) \<subseteq> set (modules self) \<and>
         sourced [context, question] (forward_events call self context question x) \<and>
         (\<forall>a b x'. forward call self context question x = (Inr (a, b), x') \<longrightarrow>
            (\<exists>xs ys. (start_out self, xs, Inr a) \<in> set (forward_events call self context question x) \<and>
                     (end_out self, ys, Inr b) \<in> set (forward_events call self context question x))) \<and>
         (\<forall>l \<in> set (modules self). l \<noteq> cq_conv self \<longrightarrow>
            set (int_args (descr l)) \<subseteq> {d_model, c_len, q_len, hidden_state, heads}) \<and>
         int_args (descr (cq_conv self)) = [hidden_state * 4, hidden_state, c_len, 5] \<and>
         passes_on [d_model, c_len, q_len, hidden_state, heads, 5, hidden_state * 4] self"
proof -
  have ret: "\<forall>a b x'. forward call self context question x = (Inr (a, b), x') \<longrightarrow>
            (\<exists>xs ys. (start_out self, xs, Inr a) \<in> set (forward_events call self context question x) \<and>
                     (end_out self, ys, Inr b) \<in> set (forward_events call self context question x))"
  proof (intro allI impI)
    fix a b x'
    assume run: "forward call self context question x = (Inr (a, b), x')"
    from forward_events_success[OF run] obtain c1 q1 c2 q2 att cv m1 m2 m3 where
      evs: "forward_events call self context question x =
        [(c_emb self, [context], Inr c1), (q_emb self, [question], Inr q1),
         (c_enc self, [c1], Inr c2), (q_enc self, [q1], Inr q2),
         (cqa self, [c2, q2], Inr att), (cq_conv self, [att], Inr cv),
         (model_enc self, [cv], Inr m1), (model_enc self, [m1], Inr m2),
         (model_enc self, [m2], Inr m3),
         (start_out self, [m1, m2], Inr a), (end_out self, [m1, m3], Inr b)]"
      by blast
    have "(start_out self, [m1, m2], Inr a) \<in> set (forward_events call self context question x)"
      and "(end_out self, [m1, m3], Inr b) \<in> set (forward_events call self context question x)"
      by (simp_all add: evs)
    then show "\<exists>xs ys. (start_out self, xs, Inr a) \<in> set (forward_events call self context question x) \<and>
                     (end_out self, ys, Inr b) \<in> set (forward_events call self context question x)"
      by blast
  qed
  note d = QANet_init_descr[OF init]
  have args: "\<forall>l \<in> set (modules self). l \<noteq> cq_conv self \<longrightarrow>
            set (int_args (descr l)) \<subseteq> {d_model, c_len, q_len, hidden_state, heads}"
    by (auto simp: modules_def d)
  have conv: "int_args (descr (cq_conv self)) = [hidden_state * 4, hidden_state, c_len, 5]"
    by (simp add: d)
  have known: "passes_on [d_model, c_len, q_len, hidden_state, heads, 5, hidden_state * 4] self"
    by (simp add: passes_on_def modules_def d)
  from forward_events_modules[of call self "context" question x]
    forward_events_sourced[of "context" question call self x] ret args conv known
  show ?thesis by blast
qed

theorem forward_only_applies_modules_witness:
  "QANet_default plain_ctor [1000, 300] (0, ()) = (Inr demo_model, (9, ())) \<and>
   set (map fst (forward_events shape_call demo_model [2, 200] [2, 100] ())) \<subseteq>
     set (modules demo_model) \<and>
   sourced [[2, 200], [2, 100]] (forward_events shape_call demo_model [2, 200] [2, 100] ()) \<and>
   int_args (descr (cq_conv demo_model)) = [128 * 4, 128, 200, 5] \<and>
   passes_on [300, 200, 100, 128, 8, 5, 128 * 4] demo_model"
proof -
  have init: "QANet_init plain_ctor [1000, 300] 300 200 100 128 8 False (0, ())
                = (Inr demo_model, (9, ()))"
    using demo_init[of "()"] by (simp add: QANet_default_def)
  from forward_only_applies_modules[OF init, of shape_call "[2, 200]" "[2, 100]" "()"]
  have "set (map fst (forward_events shape_call demo_model [2, 200] [2, 100] ())) \<subseteq>
          set (modules demo_model)"
    and "sourced [[2, 200], [2, 100]] (forward_events shape_call demo_model [2, 200] [2, 100] ())"
    and "int_args (descr (cq_conv demo_model)) = [128 * 4, 128, 200, 5]"
    and "passes_on [300, 200, 100, 128, 8, 5, 128 * 4] demo_model"
    by blast+
  with demo_init[of "()"] show ?thesis by simp
qed

text \<open>
  Claim C6. Neither \<^verbatim>\<open>__init__\<close> nor \<^verbatim>\<open>forward\<close> handles a failure. In a run of either,
  no call follows a call that raised (nothing is caught, nothing is tried again), and
  the run raises exactly when its last call raised, with the same exception: every
  error comes from a sub-module and reaches the caller unchanged.
\<close>

theorem no_failure_handling:
  "propagates (fst (forward call self context question x))
     (map (\<lambda>ev. snd (snd ev)) (forward_events call self context question x)) \<and>
   propagates
     (fst (QANet_init ctor word_vectors d_model c_len q_len hidden_state heads log_softmax (n, x0)))
     (map snd (init_events ctor word_vectors d_model c_len q_len hidden_state heads log_softmax
                 (n, x0)))"
  by (intro conjI forward_propagates init_propagates)

theorem no_failure_handling_witness:
  "fst (forward shape_call demo_model [2, 150] [2, 100] ()) = Inl ''shape mismatch'' \<and>
   map (\<lambda>ev. snd (snd ev)) (forward_events shape_call demo_model [2, 150] [2, 100] ()) =
     [Inr [2, 300, 150], Inr [2, 300, 100], Inl ''shape mismatch''] \<and>
   propagates (Inl ''shape mismatch'' :: string + int list \<times> int list)
     [Inr [2, 300, 150], Inr [2, 300, 100 :: int], Inl ''shape mismatch''] \<and>
   fst (QANet_init checked_ctor [1000, 300 :: int] 300 200 100 128 5 False (0, ())) =
     Inl ''heads'' \<and>
   map snd (init_events checked_ctor [1000, 300 :: int] 300 200 100 128 5 False (0, ())) =
     [Inr (), Inr (), Inl ''heads''] \<and>
   propagates (Inl ''heads'' :: string + int list QANet) [Inr (), Inr (), Inl ''heads'']"
  using no_failure_handling[of shape_call demo_model "[2, 150]" "[2, 100]" "()"
      checked_ctor "[1000, 300]" 300 200 100 128 5 False 0 "()"]
  by (simp add: demo_short_run demo_short_events demo_init_refused demo_init_refused_events)

text \<open>
  Claim C8. In a run of \<^verbatim>\<open>forward\<close> that returns, on a model built by \<^verbatim>\<open>__init__\<close>, the
  three model-encoding calls are calls of one object, \<^verbatim>\<open>model_enc\<close>, a
  \<^verbatim>\<open>ModelEncoderLayer\<close>: the second is applied to the result of the first and the third
  to the result of the second. Both output layers get the first result as first
  argument, \<^verbatim>\<open>start_out\<close> with the second result and \<^verbatim>\<open>end_out\<close> with the third, and
  \<^verbatim>\<open>start_out\<close> and \<^verbatim>\<open>end_out\<close> are two objects of class \<^verbatim>\<open>OutputLayer\<close>.
\<close>

theorem model_encoder_shared:
  assumes init: "QANet_init ctor word_vectors d_model c_len q_len hidden_state heads log_softmax w
                   = (Inr self, w')"
    and run: "forward call self context question x = (Inr (a, b), x')"
  shows "(\<exists>qc m1 m2 m3.
            drop 6 (forward_events call self context question x) =
              [(model_enc self, [qc], Inr m1), (model_enc self, [m1], Inr m2),
               (model_enc self, [m2], Inr m3),
               (start_out self, [m1, m2], Inr a), (end_out self, [m1, m3], Inr b)]) \<and>
         descr (model_enc self) = ModelEncoderLayer hidden_state c_len heads \<and>
         descr (start_out self) = OutputLayer hidden_state log_softmax \<and>
         descr (end_out self) = OutputLayer hidden_state log_softmax \<and>
         ident (start_out self) \<noteq> ident (end_out self)"
proof -
  from forward_events_success[OF run] obtain c1 q1 c2 q2 att cv m1 m2 m3 where
    "forward_events call self context question x =
        [(c_emb self, [context], Inr c1), (q_emb self, [question], Inr q1),
         (c_enc self, [c1], Inr c2), (q_enc self, [q1], Inr q2),
         (cqa self, [c2, q2], Inr att), (cq_conv self, [att], Inr cv),
         (model_enc self, [cv], Inr m1), (model_enc self, [m1], Inr m2),
         (model_enc self, [m2], Inr m3),
         (start_out self, [m1, m2], Inr a), (end_out self, [m1, m3], Inr b)]"
    by blast
  then have "drop 6 (forward_events call self context question x) =
              [(model_enc self, [cv], Inr m1), (model_enc self, [m1], Inr m2),
               (model_enc self, [m2], Inr m3),
               (start_out self, [m1, m2], Inr a), (end_out self, [m1, m3], Inr b)]"
    by simp
  then have events: "\<exists>qc m1 m2 m3.
            drop 6 (forward_events call self context question x) =
              [(model_enc self, [qc], Inr m1), (model_enc self, [m1], Inr m2),
               (model_enc self, [m2], Inr m3),
               (start_out self, [m1, m2], Inr a), (end_out self, [m1, m3], Inr b)]"
    by blast
  from QANet_init_distinct[OF init] have "ident (start_out self) \<noteq> ident (end_out self)"
    by (simp add: modules_def)
  with events QANet_init_descr(7,8,9)[OF init] show ?thesis by simp
qed

theorem model_encoder_shared_witness:
  "QANet_init plain_ctor [1000, 300] 300 200 100 128 8 False (0, ()) = (Inr demo_model, (9, ())) \<and>
   forward shape_call demo_model [2, 200] [2, 100] () = (Inr ([2, 200], [2, 200]), ()) \<and>
   drop 6 (forward_events shape_call demo_model [2, 200] [2, 100] ()) =
     [(model_enc demo_model, [[2, 128, 200]], Inr [2, 128, 200]),
      (model_enc demo_model, [[2, 128, 200]], Inr [2, 128, 200]),
      (model_enc demo_model, [[2, 128, 200]], Inr [2, 128, 200]),
      (start_out demo_model, [[2, 128, 200], [2, 128, 200]], Inr [2, 200]),
      (end_out demo_model, [[2, 128, 200], [2, 128, 200]], Inr [2, 200])] \<and>
   ident (start_out demo_model) \<noteq> ident (end_out demo_model)"
  using model_encoder_shared[OF demo_init[unfolded QANet_default_def, of "()"]
      demo_run[of "()"]] demo_init[unfolded QANet_default_def, of "()"]
  by (simp add: demo_run demo_events)

text \<open>
  Claim C9. After \<^verbatim>\<open>__init__\<close>: the context and question embeddings are two objects of
  class \<^verbatim>\<open>InputEmbeddingLayer\<close> built from the same word-vector table; the context and
  question encoders are two objects of class \<^verbatim>\<open>EmbeddingEncodeLayer\<close>, built with
  \<open>c_len\<close> and \<open>q_len\<close> and the same \<open>d_model\<close>, \<open>hidden_state\<close> and \<open>heads\<close> (by
  default 200 and 100, and 300, 128 and 8); the nine sub-modules are nine objects.
  \<^verbatim>\<open>forward\<close> is given the model and returns tensors only, and the state it leaves is
  the work of the sub-module calls alone: whatever every such call keeps, it keeps.
\<close>

theorem init_structure:
  assumes init: "QANet_init ctor word_vectors d_model c_len q_len hidden_state heads log_softmax w
                   = (Inr self, w')"
  shows "ident (c_emb self) \<noteq> ident (q_emb self) \<and>
         descr (c_emb self) = InputEmbeddingLayer word_vectors \<and>
         descr (q_emb self) = InputEmbeddingLayer word_vectors \<and>
         ident (c_enc self) \<noteq> ident (q_enc self) \<and>
         descr (c_enc self) = EmbeddingEncodeLayer d_model c_len hidden_state heads \<and>
         descr (q_enc self) = EmbeddingEncodeLayer d_model q_len hidden_state heads \<and>
         distinct (map ident (modules self)) \<and>
         (\<forall>self0 w0. QANet_default ctor word_vectors w = (Inr self0, w0) \<longrightarrow>
            descr (c_enc self0) = EmbeddingEncodeLayer 300 200 128 8 \<and>
            descr (q_enc self0) = EmbeddingEncodeLayer 300 100 128 8) \<and>
         (\<forall>I. (\<forall>l xs y. I y \<longrightarrow> I (snd (call l xs y))) \<longrightarrow> I x \<longrightarrow>
            I (snd (forward call self context question x)))"
proof -
  have ids: "map ident (modules self) = map (\<lambda>k. fst w + k) [0, 1, 2, 3, 4, 5, 6, 7, 8]"
    by (rule QANet_init_distinct[OF init])
  then have dist: "distinct (map ident (modules self))" by simp
  from ids have ne: "ident (c_emb self) \<noteq> ident (q_emb self)"
    "ident (c_enc self) \<noteq> ident (q_enc self)"
    by (simp_all add: modules_def)
  have dflt: "\<forall>self0 w0. QANet_default ctor word_vectors w = (Inr self0, w0) \<longrightarrow>
            descr (c_enc self0) = EmbeddingEncodeLayer 300 200 128 8 \<and>
            descr (q_enc self0) = EmbeddingEncodeLayer 300 100 128 8"
  proof (intro allI impI)
    fix self0 w0
    assume "QANet_default ctor word_vectors w = (Inr self0, w0)"
    then have i: "QANet_init ctor word_vectors 300 200 100 128 8 False w = (Inr self0, w0)"
      by (simp add: QANet_default_def)
    from QANet_init_descr(3,4)[OF i]
    show "descr (c_enc self0) = EmbeddingEncodeLayer 300 200 128 8 \<and>
          descr (q_enc self0) = EmbeddingEncodeLayer 300 100 128 8"
      by simp
  qed
  have frame: "\<forall>I. (\<forall>l xs y. I y \<longrightarrow> I (snd (call l xs y))) \<longrightarrow> I x \<longrightarrow>
            I (snd (forward call self context question x))"
    using forward_preserves[of _ call x self "context" question] by blast
  from ne dist dflt frame QANet_init_descr(1,2,3,4)[OF init] show ?thesis by simp
qed

theorem init_structure_witness:
  "QANet_default plain_ctor [1000, 300] (0, ()) = (Inr demo_model, (9, ())) \<and>
   ident (c_emb demo_model) \<noteq> ident (q_emb demo_model) \<and>
   ident (c_enc demo_model) \<noteq> ident (q_enc demo_model) \<and>
   descr (c_enc demo_model) = EmbeddingEncodeLayer 300 200 128 8 \<and>
   descr (q_enc demo_model) = EmbeddingEncodeLayer 300 100 128 8 \<and>
   distinct (map ident (modules demo_model)) \<and>
   (\<forall>l xs y. y \<le> snd (counting_call l xs y)) \<and>
   5 \<le> snd (forward counting_call demo_model [2, 200] [2, 100] 5)"
proof -
  have init: "QANet_init plain_ctor [1000, 300] 300 200 100 128 8 False (0, ())
                = (Inr demo_model, (9, ()))"
    using demo_init[of "()"] by (simp add: QANet_default_def)
  have mono: "\<forall>l xs y. y \<le> snd (counting_call l xs y)"
    by (simp add: counting_call_def)
  then have step: "\<forall>l xs y. 5 \<le> y \<longrightarrow> 5 \<le> snd (counting_call l xs y)"
    by (meson order_trans)
  from init_structure[OF init, of counting_call 5 "[2, 200]" "[2, 100]"]
  have "(\<forall>l xs y. 5 \<le> y \<longrightarrow> 5 \<le> snd (counting_call l xs y)) \<longrightarrow> (5 :: nat) \<le> 5 \<longrightarrow>
        5 \<le> snd (forward counting_call demo_model [2, 200] [2, 100] 5)"
    and "ident (c_emb demo_model) \<noteq> ident (q_emb demo_model)"
    and "ident (c_enc demo_model) \<noteq> ident (q_enc demo_model)"
    and "descr (c_enc demo_model) = EmbeddingEncodeLayer 300 200 128 8"
    and "descr (q_enc demo_model) = EmbeddingEncodeLayer 300 100 128 8"
    and "distinct (map ident (modules demo_model))"
    by blast+
  with step mono demo_init[of "()"] show ?thesis by simp
qed

text \<open>
  Claim C10. \<^verbatim>\<open>forward\<close> changes no state of its own and draws no random number: when
  the calls of the sub-modules leave the library's state as it is, so does \<^verbatim>\<open>forward\<close>,
  and a second call on the same tensors, made after the first, returns the same pair.
\<close>

theorem forward_read_only:
  assumes "\<forall>l xs y. snd (call l xs y) = y"
    and "forward call self context question x = (r, x')"
  shows "x' = x \<and> forward call self context question x' = (r, x')"
proof -
  have "snd (forward call self context question x) = x"
    by (rule forward_preserves[where I = "\<lambda>y. y = x"]) (simp_all add: assms(1))
  with assms(2) show ?thesis by simp
qed

theorem forward_read_only_witness:
  "(\<forall>l xs (y :: nat). snd (shape_call l xs y) = y) \<and>
   forward shape_call demo_model [2, 200] [2, 100] (7 :: nat) = (Inr ([2, 200], [2, 200]), 7) \<and>
   forward shape_call demo_model [2, 200] [2, 100]
     (snd (forward shape_call demo_model [2, 200] [2, 100] (7 :: nat))) =
     (Inr ([2, 200], [2, 200]), 7)"
proof -
  have ro: "\<forall>l xs (y :: nat). snd (shape_call l xs y) = y"
    by (simp add: shape_call_def split: option.splits)
  show ?thesis
    using ro forward_read_only[OF ro, of demo_model "[2, 200]" "[2, 100]" 7
        "Inr ([2, 200], [2, 200])" 7]
    by (simp add: demo_run)
qed

end
